theory Spec2Isabelle
  imports Complex_Main "HOL-Library.AList"
begin

section \<open>Data model\<close>

text \<open>
  The program is one function, \<open>preprocess_data\<close> of \<open>Data_Preparation.py\<close>, over
  pandas data frames and scikit-learn transformers. The embedding fixes the library
  semantics the function relies on:
  \<^item> a cell is a number or the missing marker (\<open>NaN\<close>); numbers are exact reals, so
    rounding error and overflow of the 64-bit floats are outside the model;
  \<^item> a data frame is a list of row labels and an ordered list of named columns;
  \<^item> every raise of the function or of a library call it makes is an error value.
\<close>

type_synonym cell = "real option"

type_synonym column = "string \<times> cell list"

record frame =
  index :: "nat list"
  cols :: "column list"

datatype error =
  NameError
  | KeyError
  | UnboundLocalError
  | InvalidParameterError
  | ValueError
  | AssertionError

text \<open>A NumPy matrix as the number of its rows and the list of its columns.\<close>

type_synonym ndarray = "nat \<times> cell list list"

text \<open>
  The literal list of line 39, assigned to \<open>bottle_df.columns\<close> at line 58. Names are
  byte strings in UTF-8; the micro sign of the eleventh name is the bytes \<open>C2 B5\<close>.
\<close>

definition columns :: "string list" where
  "columns =
    [''Cast Count'', ''Bottle Count'', ''Station ID'', ''Depth ID'', ''Depth'', ''Temperature'',
     ''Salinity'', ''O2_mL/L'', ''H2O Density'', ''O2 Sat'', ''O2_'' @ [CHR 0xC2, CHR 0xB5] @ ''mol/Kg'', ''Bottle No'',
     ''Record Indicator'', ''Temperature Precision'', ''Temperature Quality'',
     ''Salinity Precision'', ''Salinity Quality'', ''Pressure Quality'', ''O2 Quality'',
     ''H20_Density Quality'', ''O2_Saturation Quality'', ''Chlorophyll-a'',
     ''Chlorophyll-a Quality'', ''Phaeophytin_Concentration'', ''Phaeophytin Quality'',
     ''Phosphate Concentration'', ''Phosphate Quality'', ''Silicate Concentration'',
     ''Silicate Quality'', ''Nitrite Concentration'', ''Nitrite Quality'',
     ''Nitrate Concentration'', ''Nitrate Quality'', ''NH4 Concentration'', ''NH4 Quality'',
     ''C14_As1'', ''C14_As1 Precision'', ''C14_As1 Quality'', ''C14_As2'',
     ''C14_As2 Precision'', ''C14_As2 Quality'', ''C14_As_Dark'', ''C14_As_Dark Precision'',
     ''C14_As_Dark Quality'', ''Mean_C14_As'', ''Mean_C14_As Precision'',
     ''Mean_C14_As Quality'', ''Incubation Time'', ''Light Intensity'', ''Reported Depth'',
     ''Reported Temperature'', ''Reported Potential Temperature'', ''Reported Salinity'',
     ''Reported Potential Density'', ''Reported Specific Volume Anomaly'',
     ''Reported Dynamic Height'', ''Reported O2_mL/L'', ''Reported O2 Sat'',
     ''Reported Silicate Concentration'', ''Reported Phosphate Concentration'',
     ''Reported Nitrate Concentration'', ''Reported Nitrite Concentration'',
     ''Reported NH4 Concentration'', ''Reported Chlorophyll-a'', ''Reported Phaeophytin'',
     ''Pressure (decibars)'', ''Sample No'', ''Dissolved_Inorganic_Carbon1'',
     ''Dissolved_Inorganic_Carbon2'', ''Total Alkalinity1'', ''Total Alkalinity2'', ''pH2'',
     ''pH1'', ''DIC Quality Comment'']"

section \<open>The pandas operations the function calls\<close>

definition names :: "frame \<Rightarrow> string list" where
  "names df = map fst (cols df)"

text \<open>\<open>df.shape[0]\<close>\<close>

definition shape0 :: "frame \<Rightarrow> nat" where
  "shape0 df = length (index df)"

text \<open>\<open>df.isna().sum()\<close>: the Series of missing counts, one entry per column.\<close>

definition isna_sum :: "frame \<Rightarrow> (string \<times> nat) list" where
  "isna_sum df = map (\<lambda>(n, c). (n, length (filter (\<lambda>x. x = None) c))) (cols df)"

text \<open>Round half to even, as NumPy's \<open>rint\<close> does.\<close>

definition rint :: "real \<Rightarrow> int" where
  "rint x =
    (let f = \<lfloor>x\<rfloor>; d = x - of_int f
     in if d < 1 / 2 then f else if 1 / 2 < d then f + 1 else if even f then f else f + 1)"

text \<open>\<open>round(x, 2)\<close> on a Series: \<open>numpy.round\<close> to two decimals.\<close>

definition round2 :: "real \<Rightarrow> real" where
  "round2 x = of_int (rint (x * 100)) / 100"

text \<open>
  Line 110, \<open>round(data.isna().sum() / data.shape[0] * 100, 2)\<close>. On a frame without
  rows the division is \<open>0 / 0\<close>, which pandas gives as \<open>NaN\<close>.
\<close>

definition percent_missing :: "frame \<Rightarrow> (string \<times> real option) list" where
  "percent_missing data =
    map (\<lambda>(n, k). (n, if shape0 data = 0 then None
                       else Some (round2 (real k / real (shape0 data) * 100))))
      (isna_sum data)"

text \<open>
  Line 119, \<open>missing[missing["Percent of Missing Values"] > drop_threshold].index\<close>.
  A comparison with \<open>NaN\<close> is false.
\<close>

definition columns_to_drop :: "frame \<Rightarrow> real \<Rightarrow> string list" where
  "columns_to_drop data drop_threshold =
    map fst (filter (\<lambda>(n, p). case p of None \<Rightarrow> False | Some v \<Rightarrow> drop_threshold < v)
      (percent_missing data))"

text \<open>\<open>df.drop(labels, axis=1)\<close>: every column carrying one of the labels goes.\<close>

definition drop_columns :: "string list \<Rightarrow> frame \<Rightarrow> frame" where
  "drop_columns labels df = df\<lparr>cols := filter (\<lambda>(n, c). n \<notin> set labels) (cols df)\<rparr>"

text \<open>Boolean-mask selection of the entries of a list.\<close>

definition select_mask :: "bool list \<Rightarrow> 'a list \<Rightarrow> 'a list" where
  "select_mask keep xs = map snd (filter fst (zip keep xs))"

text \<open>
  \<open>df.dropna(subset=[label])\<close>: a \<open>KeyError\<close> when the label is no column of the frame;
  otherwise the rows whose cell in that column is missing go, and the remaining rows keep
  their labels.
\<close>

definition dropna :: "string \<Rightarrow> frame \<Rightarrow> error + frame" where
  "dropna label df =
    (case map_of (cols df) label of
       None \<Rightarrow> Inl KeyError
     | Some c \<Rightarrow>
         (let keep = map (\<lambda>x. x \<noteq> None) c
          in Inr \<lparr>index = select_mask keep (index df),
                  cols = map (\<lambda>(n, v). (n, select_mask keep v)) (cols df)\<rparr>))"

text \<open>\<open>df.iloc[:, 4:]\<close> and \<open>df.iloc[:, 0:4]\<close>\<close>

definition iloc_from :: "nat \<Rightarrow> frame \<Rightarrow> frame" where
  "iloc_from k df = df\<lparr>cols := drop k (cols df)\<rparr>"

definition iloc_upto :: "nat \<Rightarrow> frame \<Rightarrow> frame" where
  "iloc_upto k df = df\<lparr>cols := take k (cols df)\<rparr>"

text \<open>\<open>df[label]\<close>: the column of that name, a \<open>KeyError\<close> when there is none.\<close>

definition getcol :: "frame \<Rightarrow> string \<Rightarrow> error + cell list" where
  "getcol df label = (case map_of (cols df) label of None \<Rightarrow> Inl KeyError | Some c \<Rightarrow> Inr c)"

text \<open>\<open>Series.nunique()\<close>: the number of distinct values that are not missing.\<close>

definition nunique :: "cell list \<Rightarrow> nat" where
  "nunique c = length (remdups (filter (\<lambda>x. x \<noteq> None) c))"

text \<open>\<open>df[labels]\<close> with a list of labels: those columns, in the order of the list.\<close>

fun select_columns :: "frame \<Rightarrow> string list \<Rightarrow> error + column list" where
  "select_columns df [] = Inr []"
| "select_columns df (l # ls) =
    (case getcol df l of
       Inl e \<Rightarrow> Inl e
     | Inr c \<Rightarrow> (case select_columns df ls of Inl e \<Rightarrow> Inl e | Inr cs \<Rightarrow> Inr ((l, c) # cs)))"

definition getcols :: "frame \<Rightarrow> string list \<Rightarrow> error + frame" where
  "getcols df labels =
    (case select_columns df labels of Inl e \<Rightarrow> Inl e | Inr cs \<Rightarrow> Inr (df\<lparr>cols := cs\<rparr>))"

text \<open>
  \<open>pd.concat([a, b], axis=1)\<close>: the columns of both frames side by side, the rows matched
  by label. Frames with the same row labels are put side by side as they are; otherwise the
  result has every label of either frame, and a column has the missing marker at a label its
  frame does not have.
\<close>

definition reindex :: "nat list \<Rightarrow> nat list \<Rightarrow> cell list \<Rightarrow> cell list" where
  "reindex new old c = map (\<lambda>l. case map_of (zip old c) l of None \<Rightarrow> None | Some v \<Rightarrow> v) new"

definition concat_axis1 :: "frame \<Rightarrow> frame \<Rightarrow> frame" where
  "concat_axis1 a b =
    (if index a = index b then \<lparr>index = index a, cols = cols a @ cols b\<rparr>
     else
       (let idx = index a @ filter (\<lambda>l. l \<notin> set (index a)) (index b)
        in \<lparr>index = idx,
            cols = map (\<lambda>(n, c). (n, reindex idx (index a) c)) (cols a) @
                   map (\<lambda>(n, c). (n, reindex idx (index b) c)) (cols b)\<rparr>))"

text \<open>\<open>df.reset_index(drop=True)\<close>: the rows are relabelled \<open>0, 1, ...\<close>.\<close>

definition reset_index :: "frame \<Rightarrow> frame" where
  "reset_index df = df\<lparr>index := [0 ..< shape0 df]\<rparr>"

text \<open>
  \<open>pd.DataFrame(array, columns=labels)\<close>: a \<open>ValueError\<close> when the array does not have
  one column per label; the rows are labelled \<open>0, 1, ...\<close>.
\<close>

definition DataFrame :: "ndarray \<Rightarrow> string list \<Rightarrow> error + frame" where
  "DataFrame arr labels =
    (if length (snd arr) \<noteq> length labels then Inl ValueError
     else Inr \<lparr>index = [0 ..< fst arr], cols = zip labels (snd arr)\<rparr>)"

section \<open>The scikit-learn transformers the function calls\<close>

text \<open>The values of a column that are not missing.\<close>

definition present :: "cell list \<Rightarrow> real list" where
  "present c = List.map_filter (\<lambda>x. x) c"

text \<open>\<open>numpy.nanmean\<close>, \<open>numpy.nanmedian\<close> and the mode (the least of the most frequent values):
  each is \<open>NaN\<close> on a column without values.\<close>

definition nanmean :: "cell list \<Rightarrow> cell" where
  "nanmean c =
    (let vs = present c in if vs = [] then None else Some (sum_list vs / real (length vs)))"

definition nanmedian :: "cell list \<Rightarrow> cell" where
  "nanmedian c =
    (let vs = sort (present c); k = length vs
     in if k = 0 then None
        else if odd k then Some (vs ! (k div 2))
        else Some ((vs ! (k div 2 - 1) + vs ! (k div 2)) / 2))"

definition most_frequent :: "cell list \<Rightarrow> cell" where
  "most_frequent c =
    (let vs = present c
     in if vs = [] then None
        else
          (let m = Max (set (map (count_list vs) vs))
           in Some (Min (set (filter (\<lambda>v. count_list vs v = m) vs)))))"

definition allowed_strategies :: "string list" where
  "allowed_strategies = [''mean'', ''median'', ''most_frequent'', ''constant'']"

text \<open>
  The statistic \<open>SimpleImputer.fit\<close> learns for one column. With the strategy
  \<open>constant\<close> it is \<open>fill_value\<close>, and \<open>0\<close> when no \<open>fill_value\<close> was given.
\<close>

definition statistic :: "string \<Rightarrow> real option \<Rightarrow> cell list \<Rightarrow> cell" where
  "statistic strategy fill_value c =
    (if strategy = ''mean'' then nanmean c
     else if strategy = ''median'' then nanmedian c
     else if strategy = ''most_frequent'' then most_frequent c
     else (case fill_value of None \<Rightarrow> Some 0 | Some v \<Rightarrow> Some v))"

text \<open>
  \<open>SimpleImputer(strategy, fill_value).fit_transform(X)\<close>: the strategy is validated, then
  the array (at least one row and one column); a column whose statistic is \<open>NaN\<close> (it has
  no value at all) is left out of the result; in every other column the statistic replaces
  the missing cells.
\<close>

definition impute :: "real \<Rightarrow> cell list \<Rightarrow> cell list" where
  "impute v c = map (\<lambda>x. case x of None \<Rightarrow> Some v | Some y \<Rightarrow> Some y) c"

definition SimpleImputer_fit_transform ::
  "string \<Rightarrow> real option \<Rightarrow> ndarray \<Rightarrow> error + ndarray" where
  "SimpleImputer_fit_transform strategy fill_value X =
    (if strategy \<notin> set allowed_strategies then Inl InvalidParameterError
     else if fst X = 0 \<or> snd X = [] then Inl ValueError
     else Inr (fst X,
       concat (map (\<lambda>c. case statistic strategy fill_value c of
                          None \<Rightarrow> []
                        | Some v \<Rightarrow> [impute v c])
         (snd X))))"

datatype scaler = StandardScaler | MinMaxScaler

text \<open>The population variance of the values of a column.\<close>

definition nanvar :: "cell list \<Rightarrow> cell" where
  "nanvar c =
    (case nanmean c of
       None \<Rightarrow> None
     | Some m \<Rightarrow> Some (sum_list (map (\<lambda>v. (v - m)\<^sup>2) (present c)) / real (length (present c))))"

text \<open>A scale of zero (a constant column) is replaced by one.\<close>

definition handle_zeros_in_scale :: "real \<Rightarrow> real" where
  "handle_zeros_in_scale s = (if s = 0 then 1 else s)"

text \<open>
  What a fitted scaler does to the column it was fitted on. Both scalers skip missing cells
  when they fit and leave them missing when they transform. \<open>StandardScaler\<close> gives
  \<open>(x - mean) / scale\<close>, \<open>MinMaxScaler\<close> gives \<open>x * scale + min\<close> for the range \<open>(0, 1)\<close>.
\<close>

definition standard_scale :: "cell list \<Rightarrow> cell list" where
  "standard_scale c =
    (case (nanmean c, nanvar c) of
       (Some mean, Some var) \<Rightarrow>
         map (map_option (\<lambda>x. (x - mean) / handle_zeros_in_scale (sqrt var))) c
     | _ \<Rightarrow> c)"

definition minmax_scale :: "cell list \<Rightarrow> cell list" where
  "minmax_scale c =
    (if present c = [] then c
     else
       (let data_min = Min (set (present c)); data_max = Max (set (present c));
            scale = (1 - 0) / handle_zeros_in_scale (data_max - data_min);
            min = 0 - data_min * scale
        in map (map_option (\<lambda>x. x * scale + min)) c))"

definition scale_column :: "scaler \<Rightarrow> cell list \<Rightarrow> cell list" where
  "scale_column sc c =
    (case sc of StandardScaler \<Rightarrow> standard_scale c | MinMaxScaler \<Rightarrow> minmax_scale c)"

definition scaler_fit_transform :: "scaler \<Rightarrow> ndarray \<Rightarrow> error + ndarray" where
  "scaler_fit_transform sc X =
    (if fst X = 0 \<or> snd X = [] then Inl ValueError
     else Inr (fst X, map (scale_column sc) (snd X)))"

text \<open>\<open>Pipeline([("imputer", imputer), ("scaler", scaler)]).fit_transform(X)\<close>\<close>

definition Pipeline_fit_transform ::
  "(ndarray \<Rightarrow> error + ndarray) \<Rightarrow> (ndarray \<Rightarrow> error + ndarray) \<Rightarrow> ndarray \<Rightarrow> error + ndarray" where
  "Pipeline_fit_transform imputer scaler X =
    (case imputer X of Inl e \<Rightarrow> Inl e | Inr Xt \<Rightarrow> scaler Xt)"

text \<open>\<open>DataFrame.to_numpy\<close>, as the transformers see a frame.\<close>

definition to_array :: "frame \<Rightarrow> ndarray" where
  "to_array df = (shape0 df, map snd (cols df))"

text \<open>
  \<open>ColumnTransformer([("num", numerical_pipeline, num_attributes),
  ("cat", categorical_imputer, cat_attributes)]).fit_transform(new_data)\<close>: a transformer
  with an empty column list is skipped; the others are fitted in order, each on its own
  columns, and the results are stacked side by side.
\<close>

definition apply_to_columns ::
  "(ndarray \<Rightarrow> error + ndarray) \<Rightarrow> string list \<Rightarrow> frame \<Rightarrow> error + cell list list" where
  "apply_to_columns t labels X =
    (if labels = [] then Inr []
     else
       (case getcols X labels of
          Inl e \<Rightarrow> Inl e
        | Inr sub \<Rightarrow> (case t (to_array sub) of Inl e \<Rightarrow> Inl e | Inr Xt \<Rightarrow> Inr (snd Xt))))"

definition full_pipeline_fit_transform ::
  "(ndarray \<Rightarrow> error + ndarray) \<Rightarrow> (ndarray \<Rightarrow> error + ndarray) \<Rightarrow>
   string list \<Rightarrow> string list \<Rightarrow> frame \<Rightarrow> error + ndarray" where
  "full_pipeline_fit_transform num cat num_attributes cat_attributes X =
    (case apply_to_columns num num_attributes X of
       Inl e \<Rightarrow> Inl e
     | Inr Xn \<Rightarrow>
         (case apply_to_columns cat cat_attributes X of
            Inl e \<Rightarrow> Inl e
          | Inr Xc \<Rightarrow> Inr (shape0 X, Xn @ Xc)))"

section \<open>The function \<open>preprocess_data\<close>\<close>

record params =
  drop_threshold :: real
  num_strategy :: string
  cat_strategy :: string
  fill_value :: real
  scaling :: string
  file_name :: string

text \<open>The defaults of the signature, lines 95 to 97.\<close>

definition default_params :: params where
  "default_params =
    \<lparr>drop_threshold = 70, num_strategy = ''mean'', cat_strategy = ''most_frequent'',
     fill_value = - 999, scaling = ''standard'', file_name = ''prepared_data.csv''\<rparr>"

text \<open>
  The state of the Python process, as far as the function can reach it: the data frame
  objects, addressed by reference; the module-level variable \<open>bottle_df\<close>, which holds the
  reference of the table loaded at line 30; and the files written so far.
\<close>

record pystate =
  heap :: "frame list"
  bottle_df :: nat
  files :: "(string \<times> frame) list"

definition deref :: "pystate \<Rightarrow> nat \<Rightarrow> frame option" where
  "deref s r = (if r < length (heap s) then Some (heap s ! r) else None)"

text \<open>A new object gets the next free reference.\<close>

definition alloc :: "frame \<Rightarrow> pystate \<Rightarrow> nat \<times> pystate" where
  "alloc f s = (length (heap s), s\<lparr>heap := heap s @ [f]\<rparr>)"

text \<open>An operation with \<open>inplace=True\<close> overwrites the object it is called on.\<close>

definition assign :: "nat \<Rightarrow> frame \<Rightarrow> pystate \<Rightarrow> pystate" where
  "assign r f s = s\<lparr>heap := (heap s)[r := f]\<rparr>"

text \<open>Lines 131 to 136: the loop that fills the dictionary \<open>uniques\<close>, in insertion order.\<close>

fun uniques_loop ::
  "frame \<Rightarrow> string list \<Rightarrow> (string \<times> nat) list \<Rightarrow> error + (string \<times> nat) list" where
  "uniques_loop new_data [] uniques = Inr uniques"
| "uniques_loop new_data (column # rest) uniques =
    (case getcol new_data column of
       Inl e \<Rightarrow> Inl e
     | Inr c \<Rightarrow> uniques_loop new_data rest (AList.update column (nunique c) uniques))"

text \<open>Lines 141 and 142: the two comprehensions over the keys of \<open>uniques\<close>.\<close>

definition cat_attributes_of :: "(string \<times> nat) list \<Rightarrow> string list" where
  "cat_attributes_of uniques = map fst (filter (\<lambda>(column, k). k \<le> 6) uniques)"

definition num_attributes_of :: "(string \<times> nat) list \<Rightarrow> string list" where
  "num_attributes_of uniques = map fst (filter (\<lambda>(column, k). 6 < k) uniques)"

text \<open>Lines 158 to 161: with any other value of \<open>scaling\<close> the name \<open>scaler\<close> stays unbound.\<close>

definition scaler_of :: "string \<Rightarrow> scaler option" where
  "scaler_of sc =
    (if sc = ''standard'' then Some StandardScaler
     else if sc = ''normal'' then Some MinMaxScaler
     else None)"

text \<open>Line 182: \<open>not all(prepared_df.isna().sum())\<close>\<close>

definition no_missing_check :: "frame \<Rightarrow> bool" where
  "no_missing_check prepared_df = (\<not> list_all (\<lambda>(n, k). k \<noteq> 0) (isna_sum prepared_df))"

text \<open>Lines 131 to 142: the classification of the columns of \<open>new_data\<close>.\<close>

definition classify :: "frame \<Rightarrow> error + string list \<times> string list" where
  "classify new_data =
    (case uniques_loop new_data (names new_data) [] of
       Inl e \<Rightarrow> Inl e
     | Inr uniques \<Rightarrow> Inr (num_attributes_of uniques, cat_attributes_of uniques))"

text \<open>Line 145: the numerical columns first, then the categorical ones.\<close>

definition reorder :: "frame \<Rightarrow> string list \<Rightarrow> string list \<Rightarrow> error + frame" where
  "reorder new_data num_attributes cat_attributes =
    (case getcols new_data num_attributes of
       Inl e \<Rightarrow> Inl e
     | Inr num_part \<Rightarrow>
         (case getcols new_data cat_attributes of
            Inl e \<Rightarrow> Inl e
          | Inr cat_part \<Rightarrow> Inr (concat_axis1 num_part cat_part)))"

text \<open>
  Lines 149 to 172: the imputers, the scaler and the two pipelines are built, fitted on
  \<open>new_data\<close> and applied to it, and the array that comes back is wrapped in a frame.
  \<open>fill_value\<close> reaches the numerical imputer only with the strategy \<open>constant\<close>.
\<close>

definition fit_transform ::
  "params \<Rightarrow> string list \<Rightarrow> string list \<Rightarrow> frame \<Rightarrow> error + frame" where
  "fit_transform p num_attributes cat_attributes new_data =
    (let numerical_imputer =
           SimpleImputer_fit_transform (num_strategy p)
             (if num_strategy p = ''constant'' then Some (fill_value p) else None);
         categorical_imputer = SimpleImputer_fit_transform (cat_strategy p) None
     in case scaler_of (scaling p) of
          None \<Rightarrow> Inl UnboundLocalError
        | Some sc \<Rightarrow>
            (let numerical_pipeline =
                   Pipeline_fit_transform numerical_imputer (scaler_fit_transform sc)
             in case full_pipeline_fit_transform numerical_pipeline categorical_imputer
                       num_attributes cat_attributes new_data of
                  Inl e \<Rightarrow> Inl e
                | Inr arr \<Rightarrow> DataFrame arr (num_attributes @ cat_attributes)))"

text \<open>
  Lines 175 to 187. The slice \<open>data.iloc[:, 0:4]\<close> is an object of its own, so resetting its
  index in place reaches no other object.
\<close>

definition reassemble :: "frame \<Rightarrow> frame \<Rightarrow> error + frame" where
  "reassemble data prepared_bottle_df =
    (let excluded_columns = reset_index (iloc_upto 4 data);
         prepared_bottle_df = reset_index prepared_bottle_df;
         prepared_df = concat_axis1 excluded_columns prepared_bottle_df
     in if no_missing_check prepared_df then Inr prepared_df else Inl AssertionError)"

text \<open>Lines 128 to 187, which only read \<open>data\<close>.\<close>

definition prepare :: "params \<Rightarrow> frame \<Rightarrow> error + frame" where
  "prepare p data =
    (let new_data = iloc_from 4 data
     in case classify new_data of
          Inl e \<Rightarrow> Inl e
        | Inr (num_attributes, cat_attributes) \<Rightarrow>
            (case reorder new_data num_attributes cat_attributes of
               Inl e \<Rightarrow> Inl e
             | Inr new_data \<Rightarrow>
                 (case fit_transform p num_attributes cat_attributes new_data of
                    Inl e \<Rightarrow> Inl e
                  | Inr prepared_bottle_df \<Rightarrow> reassemble data prepared_bottle_df)))"

text \<open>
  The function. Line 106 copies the object \<open>bottle_df\<close> refers to; lines 122 and 125
  overwrite the copy in place. Nothing is written to a file: line 185 is a comment.
\<close>

definition preprocess_data :: "params \<Rightarrow> pystate \<Rightarrow> (error + frame) \<times> pystate" where
  "preprocess_data p s =
    (case deref s (bottle_df s) of
       None \<Rightarrow> (Inl NameError, s)
     | Some source \<Rightarrow>
         (let (data, s) = alloc source s;
              to_drop = columns_to_drop (heap s ! data) (drop_threshold p);
              s = assign data (drop_columns to_drop (heap s ! data)) s
          in case dropna ''Salinity'' (heap s ! data) of
               Inl e \<Rightarrow> (Inl e, s)
             | Inr d \<Rightarrow>
                 (let s = assign data d s
                  in (prepare p (heap s ! data), s))))"

section \<open>Notions of the specification\<close>

text \<open>
  The missing percentage of a column as the specification words it,
  \<open>missing_count / row_count * 100\<close>, without the rounding of line 110.
\<close>

definition spec_missing_percentage :: "frame \<Rightarrow> cell list \<Rightarrow> real" where
  "spec_missing_percentage data c =
    real (length (filter (\<lambda>x. x = None) c)) / real (shape0 data) * 100"

text \<open>
  The errors the specification calls configuration errors: an invalid value of
  \<open>num_strategy\<close> or \<open>cat_strategy\<close>, which the imputer rejects when it is fitted, and an
  invalid value of \<open>scaling\<close>, which leaves \<open>scaler\<close> unbound.
\<close>

definition configuration_error :: "error \<Rightarrow> bool" where
  "configuration_error e = (e = InvalidParameterError \<or> e = UnboundLocalError)"

section \<open>Tables of the fixed schema\<close>

text \<open>
  A table with the 74 columns of line 39 and rows labelled from zero, and the state of the
  process once the module is loaded: the table is the only object, and \<open>bottle_df\<close> refers
  to it.
\<close>

definition table_of :: "nat \<Rightarrow> (string \<Rightarrow> cell list) \<Rightarrow> frame" where
  "table_of n f = \<lparr>index = [0 ..< n], cols = map (\<lambda>name. (name, f name)) columns\<rparr>"

definition loaded :: "frame \<Rightarrow> pystate" where
  "loaded t = \<lparr>heap = [t], bottle_df = 0, files = []\<rparr>"

text \<open>Two samples, every cell measured.\<close>

definition complete_table :: frame where
  "complete_table = table_of 2 (\<lambda>name. [Some 1, Some 2])"


text \<open>
  Eight samples: seven different temperatures and one missing, two different values in
  every other column.
\<close>

definition mixed_table :: frame where
  "mixed_table =
    table_of 8 (\<lambda>name.
      if name = ''Temperature''
      then [Some 10, None, Some 12, Some 13, Some 14, Some 15, Some 16, Some 17]
      else [Some 1, Some 2, Some 1, Some 2, Some 1, Some 2, Some 1, Some 2])"

definition constant_normal_params :: params where
  "constant_normal_params = default_params\<lparr>num_strategy := ''constant'', scaling := ''normal''\<rparr>"

text \<open>What the call returns for \<open>mixed_table\<close> with \<open>constant_normal_params\<close>.\<close>

definition mixed_prepared :: frame where
  "mixed_prepared =
    \<lparr>index = [0 ..< 8],
     cols = take 4 (cols mixed_table) @
       [(''Temperature'',
         [Some (1009 / 1016), Some 0, Some (1011 / 1016), Some (1012 / 1016),
          Some (1013 / 1016), Some (1014 / 1016), Some (1015 / 1016), Some 1])] @
       filter (\<lambda>(n, c). n \<noteq> ''Temperature'') (drop 4 (cols mixed_table))\<rparr>"

text \<open>Two samples; the first column, \<open>Cast Count\<close>, is missing in the first one.\<close>

definition null_identifier_table :: frame where
  "null_identifier_table =
    table_of 2 (\<lambda>name. if name = ''Cast Count'' then [None, Some 2] else [Some 1, Some 2])"


text \<open>Four samples; the salinity of three of them is missing.\<close>

definition sparse_target_table :: frame where
  "sparse_target_table =
    table_of 4 (\<lambda>name. if name = ''Salinity'' then [None, None, None, Some 35]
                         else [Some 1, Some 2, Some 3, Some 4])"

text \<open>
  Two samples; the four identifier columns are complete, every other column is missing in
  the first sample.
\<close>

definition sparse_features_table :: frame where
  "sparse_features_table =
    table_of 2 (\<lambda>name. if name \<in> set (take 4 columns) then [Some 1, Some 2]
                         else [None, Some 1])"

section \<open>The call and the state of the process\<close>

lemma preprocess_data_result:
  "fst (preprocess_data p s) =
    (case deref s (bottle_df s) of
       None \<Rightarrow> Inl NameError
     | Some source \<Rightarrow>
         (case dropna ''Salinity''
                 (drop_columns (columns_to_drop source (drop_threshold p)) source) of
            Inl e \<Rightarrow> Inl e
          | Inr d \<Rightarrow> prepare p d))"
  by (simp add: preprocess_data_def alloc_def assign_def deref_def Let_def
      split: option.splits sum.splits)

lemma preprocess_data_state:
  "snd (preprocess_data p s) =
    (case deref s (bottle_df s) of
       None \<Rightarrow> s
     | Some source \<Rightarrow>
         s\<lparr>heap := heap s @
           [case dropna ''Salinity''
                   (drop_columns (columns_to_drop source (drop_threshold p)) source) of
              Inl e \<Rightarrow> drop_columns (columns_to_drop source (drop_threshold p)) source
            | Inr d \<Rightarrow> d]\<rparr>)"
  by (simp add: preprocess_data_def alloc_def assign_def deref_def Let_def
      split: option.splits sum.splits)

lemma deref_after_call:
  "deref (snd (preprocess_data p s)) (bottle_df s) = deref s (bottle_df s)"
  by (simp add: preprocess_data_state deref_def nth_append split: option.splits)

lemma bottle_df_after_call: "bottle_df (snd (preprocess_data p s)) = bottle_df s"
  by (simp add: preprocess_data_state split: option.splits)

lemma fit_transform_file_name:
  "fit_transform (p\<lparr>file_name := f\<rparr>) ns cs d = fit_transform p ns cs d"
  by (simp add: fit_transform_def Let_def split: option.splits)

lemma prepare_file_name: "prepare (p\<lparr>file_name := f\<rparr>) d = prepare p d"
  by (simp add: prepare_def Let_def fit_transform_file_name split: sum.splits prod.splits)

text \<open>
  C8. The function is deterministic: a second call with the same parameters, made in the
  state the first call leaves, returns what the first call returned; and two calls in any
  two states whose source table is the same return the same result.
\<close>

theorem preprocess_data_deterministic:
  "fst (preprocess_data p (snd (preprocess_data p s))) = fst (preprocess_data p s) \<and>
   (deref s1 (bottle_df s1) = deref s2 (bottle_df s2) \<longrightarrow>
      fst (preprocess_data p s1) = fst (preprocess_data p s2))"
  by (simp add: preprocess_data_result deref_after_call bottle_df_after_call)

theorem preprocess_data_deterministic_witness:
  "deref (loaded complete_table) (bottle_df (loaded complete_table)) =
     deref \<lparr>heap = [table_of 0 (\<lambda>name. []), complete_table], bottle_df = 1,
            files = [(''prepared_data.csv'', complete_table)]\<rparr> 1 \<and>
   fst (preprocess_data default_params (loaded complete_table)) =
     fst (preprocess_data default_params
       \<lparr>heap = [table_of 0 (\<lambda>name. []), complete_table], bottle_df = 1,
        files = [(''prepared_data.csv'', complete_table)]\<rparr>)"
  using preprocess_data_deterministic [of default_params "loaded complete_table"
      "loaded complete_table"
      "\<lparr>heap = [table_of 0 (\<lambda>name. []), complete_table], bottle_df = 1,
        files = [(''prepared_data.csv'', complete_table)]\<rparr>"]
  by (simp add: deref_def loaded_def)

text \<open>
  C9. A call does not change the source table, whether it returns a table or an error:
  \<open>bottle_df\<close> refers to the same object afterwards, that object is what it was, and so is
  every other object that existed before the call. The call only adds its private copy.
\<close>

theorem source_table_unchanged:
  "bottle_df (snd (preprocess_data p s)) = bottle_df s \<and>
   deref (snd (preprocess_data p s)) (bottle_df s) = deref s (bottle_df s) \<and>
   take (length (heap s)) (heap (snd (preprocess_data p s))) = heap s"
  by (simp add: preprocess_data_state deref_def nth_append split: option.splits)

text \<open>
  C10. The parameter \<open>file_name\<close> has no effect: two calls that differ only in it return
  the same result and leave the same state, and no call writes a file.
\<close>

theorem file_name_no_effect:
  "preprocess_data (p\<lparr>file_name := f1\<rparr>) s = preprocess_data (p\<lparr>file_name := f2\<rparr>) s \<and>
   files (snd (preprocess_data p s)) = files s"
proof
  show "preprocess_data (p\<lparr>file_name := f1\<rparr>) s = preprocess_data (p\<lparr>file_name := f2\<rparr>) s"
    by (rule prod_eqI)
      (simp_all add: preprocess_data_state preprocess_data_result prepare_file_name
        split: option.splits sum.splits)
  show "files (snd (preprocess_data p s)) = files s"
    by (simp add: preprocess_data_state split: option.splits)
qed

section \<open>The column pruner\<close>

lemma columns_distinct: "distinct columns"
  by (simp add: columns_def)

lemma names_table_of: "names (table_of n f) = columns"
  by (simp add: names_def table_of_def o_def)


lemma deref_loaded: "deref (loaded t) (bottle_df (loaded t)) = Some t"
  by (simp add: deref_def loaded_def)





text \<open>On a table without rows every percentage is \<open>NaN\<close>, and no column is dropped.\<close>

lemma columns_to_drop_no_rows: "shape0 data = 0 \<Longrightarrow> columns_to_drop data thr = []"
  by (simp add: columns_to_drop_def percent_missing_def isna_sum_def filter_map o_def split_def)



lemma names_drop_columns:
  "names (drop_columns labels df) = filter (\<lambda>n. n \<notin> set labels) (names df)"
  by (simp add: names_def drop_columns_def filter_map o_def split_def)

lemma dropna_KeyError: "label \<notin> set (names df) \<Longrightarrow> dropna label df = Inl KeyError"
  by (simp add: dropna_def names_def map_of_eq_None_iff[THEN iffD2])




text \<open>
  C5, as the code has it. The pruner treats the target like any other column: when the
  rounded missing percentage of \<open>Salinity\<close> exceeds \<open>drop_threshold\<close>, the column is
  dropped at line 122, and the call then fails at line 125 with the \<open>KeyError\<close> of
  \<open>dropna\<close>, whatever the other parameters are.
\<close>

theorem target_dropped_then_KeyError:
  assumes "deref s (bottle_df s) = Some source"
    and "map_of (percent_missing source) ''Salinity'' = Some (Some v)"
    and "drop_threshold p < v"
  shows "''Salinity'' \<in> set (columns_to_drop source (drop_threshold p)) \<and>
         ''Salinity'' \<notin> set (names (drop_columns (columns_to_drop source (drop_threshold p)) source)) \<and>
         fst (preprocess_data p s) = Inl KeyError"
proof -
  from assms(2) have "(''Salinity'', Some v) \<in> set (percent_missing source)"
    by (rule map_of_SomeD)
  with assms(3) have a: "''Salinity'' \<in> set (columns_to_drop source (drop_threshold p))"
    by (force simp: columns_to_drop_def)
  then have b: "''Salinity'' \<notin> set (names (drop_columns (columns_to_drop source (drop_threshold p)) source))"
    by (simp add: names_drop_columns)
  from dropna_KeyError[OF b] assms(1) a b show ?thesis
    by (simp add: preprocess_data_result)
qed

theorem target_dropped_then_KeyError_witness:
  "deref (loaded sparse_target_table) (bottle_df (loaded sparse_target_table)) =
     Some sparse_target_table \<and>
   map_of (percent_missing sparse_target_table) ''Salinity'' = Some (Some 75) \<and>
   drop_threshold default_params < 75 \<and>
   ''Salinity'' \<in> set (columns_to_drop sparse_target_table (drop_threshold default_params)) \<and>
   fst (preprocess_data default_params (loaded sparse_target_table)) = Inl KeyError"
proof -
  have h2: "map_of (percent_missing sparse_target_table) ''Salinity'' = Some (Some 75)"
    by code_simp
  have h3: "drop_threshold default_params < 75"
    by (simp add: default_params_def)
  from target_dropped_then_KeyError[OF deref_loaded h2 h3] show ?thesis
    using h2 h3 by (simp add: deref_loaded)
qed

text \<open>
  The claim as the specification states it fails for \<open>sparse_target_table\<close> and the default
  parameters: three quarters of \<open>Salinity\<close> are missing, the pruner drops the column and
  keeps every other one, and the call fails with a \<open>KeyError\<close>, which is no configuration
  error.
\<close>

theorem target_counterexample:
  "70 < spec_missing_percentage sparse_target_table [None, None, None, Some 35] \<and>
   (''Salinity'', [None, None, None, Some 35]) \<in> set (cols sparse_target_table) \<and>
   names (drop_columns (columns_to_drop sparse_target_table 70) sparse_target_table) =
     filter (\<lambda>name. name \<noteq> ''Salinity'') columns \<and>
   fst (preprocess_data default_params (loaded sparse_target_table)) = Inl KeyError \<and>
   \<not> configuration_error KeyError"
proof -
  have a: "70 < spec_missing_percentage sparse_target_table [None, None, None, Some 35]"
    by (simp add: spec_missing_percentage_def sparse_target_table_def shape0_def table_of_def)
  have b: "(''Salinity'', [None, None, None, Some 35]) \<in> set (cols sparse_target_table)"
    by code_simp
  have c: "names (drop_columns (columns_to_drop sparse_target_table 70) sparse_target_table) =
           filter (\<lambda>name. name \<noteq> ''Salinity'') columns"
    by code_simp
  have d: "dropna ''Salinity''
             (drop_columns (columns_to_drop sparse_target_table 70) sparse_target_table) =
           Inl KeyError"
    by code_simp
  have e: "fst (preprocess_data default_params (loaded sparse_target_table)) = Inl KeyError"
    using d by (simp add: preprocess_data_result deref_loaded default_params_def)
  show ?thesis using a b c e by (simp add: configuration_error_def)
qed

text \<open>
  C6, as the code has it. \<open>Salinity\<close> is a feature column (the seventh of the schema), so
  a threshold that makes the pruner drop every column after the fourth makes it drop the
  target too: at most the four identifier columns are left, and the call fails at line 125
  with a \<open>KeyError\<close>. No table is returned.
\<close>

theorem all_features_dropped_then_KeyError:
  assumes "deref s (bottle_df s) = Some source"
    and "''Salinity'' \<notin> set (take 4 (names source))"
    and "set (drop 4 (names source)) \<subseteq> set (columns_to_drop source (drop_threshold p))"
  shows "set (names (drop_columns (columns_to_drop source (drop_threshold p)) source)) \<subseteq>
           set (take 4 (names source)) \<and>
         fst (preprocess_data p s) = Inl KeyError"
proof -
  let ?L = "columns_to_drop source (drop_threshold p)"
  have "set (names source) = set (take 4 (names source)) \<union> set (drop 4 (names source))"
    by (metis append_take_drop_id set_append)
  with assms(3) have a: "set (names (drop_columns ?L source)) \<subseteq> set (take 4 (names source))"
    by (auto simp: names_drop_columns)
  with assms(2) have "''Salinity'' \<notin> set (names (drop_columns ?L source))" by blast
  from dropna_KeyError[OF this] assms(1) a show ?thesis
    by (simp add: preprocess_data_result)
qed

theorem all_features_dropped_then_KeyError_witness:
  "deref (loaded sparse_features_table) (bottle_df (loaded sparse_features_table)) =
     Some sparse_features_table \<and>
   ''Salinity'' \<notin> set (take 4 (names sparse_features_table)) \<and>
   set (drop 4 (names sparse_features_table)) \<subseteq>
     set (columns_to_drop sparse_features_table (drop_threshold (default_params\<lparr>drop_threshold := 1\<rparr>))) \<and>
   fst (preprocess_data (default_params\<lparr>drop_threshold := 1\<rparr>) (loaded sparse_features_table)) =
     Inl KeyError"
proof -
  have h2: "''Salinity'' \<notin> set (take 4 (names sparse_features_table))"
    by code_simp
  have h3: "set (drop 4 (names sparse_features_table)) \<subseteq>
     set (columns_to_drop sparse_features_table (drop_threshold (default_params\<lparr>drop_threshold := 1\<rparr>)))"
    by code_simp
  from all_features_dropped_then_KeyError[OF deref_loaded h2 h3] show ?thesis
    using h2 h3 by (simp add: deref_loaded)
qed

text \<open>
  The claim as the specification states it fails for \<open>sparse_features_table\<close> and
  \<open>drop_threshold = 1\<close>: the pruner leaves the four identifier columns only, and the call
  fails with a \<open>KeyError\<close>.
\<close>

theorem all_features_dropped_counterexample:
  "names (drop_columns (columns_to_drop sparse_features_table 1) sparse_features_table) =
     take 4 columns \<and>
   fst (preprocess_data (default_params\<lparr>drop_threshold := 1\<rparr>) (loaded sparse_features_table)) =
     Inl KeyError"
proof -
  have c: "names (drop_columns (columns_to_drop sparse_features_table 1) sparse_features_table) =
           take 4 columns"
    by code_simp
  have d: "dropna ''Salinity''
             (drop_columns (columns_to_drop sparse_features_table 1) sparse_features_table) =
           Inl KeyError"
    by code_simp
  have e: "fst (preprocess_data (default_params\<lparr>drop_threshold := 1\<rparr>) (loaded sparse_features_table)) = Inl KeyError"
    using d by (simp add: preprocess_data_result deref_loaded default_params_def)
  show ?thesis using c e by simp
qed


section \<open>The attribute classifier\<close>

lemma update_new_key: "k \<notin> fst ` set al \<Longrightarrow> AList.update k v al = al @ [(k, v)]"
  by (induction al) auto

lemma getcol_member:
  "distinct (names df) \<Longrightarrow> (n, c) \<in> set (cols df) \<Longrightarrow> getcol df n = Inr c"
  by (simp add: getcol_def names_def)

lemma uniques_loop_distinct:
  assumes "distinct (names nd)"
  shows "distinct (map fst xs) \<Longrightarrow> set xs \<subseteq> set (cols nd) \<Longrightarrow>
         fst ` set acc \<inter> fst ` set xs = {} \<Longrightarrow>
         uniques_loop nd (map fst xs) acc = Inr (acc @ map (\<lambda>(n, c). (n, nunique c)) xs)"
proof (induction xs arbitrary: acc)
  case Nil
  then show ?case by simp
next
  case (Cons x xs)
  obtain n c where x: "x = (n, c)" by (cases x)
  from Cons.prems x have g: "getcol nd n = Inr c"
    using getcol_member[OF assms] by simp
  from Cons.prems x have new: "n \<notin> fst ` set acc" by auto
  have "uniques_loop nd (map fst xs) (acc @ [(n, nunique c)]) =
        Inr ((acc @ [(n, nunique c)]) @ map (\<lambda>(n, c). (n, nunique c)) xs)"
  proof (rule Cons.IH)
    show "distinct (map fst xs)" using Cons.prems by simp
    show "set xs \<subseteq> set (cols nd)" using Cons.prems by simp
    show "fst ` set (acc @ [(n, nunique c)]) \<inter> fst ` set xs = {}"
      using Cons.prems x by auto
  qed
  then show ?case by (simp add: x g update_new_key[OF new])
qed

lemma classify_distinct:
  assumes "distinct (names nd)"
  shows "classify nd =
    Inr (map fst (filter (\<lambda>(n, c). 6 < nunique c) (cols nd)),
         map fst (filter (\<lambda>(n, c). nunique c \<le> 6) (cols nd)))"
proof -
  have "uniques_loop nd (map fst (cols nd)) [] = Inr ([] @ map (\<lambda>(n, c). (n, nunique c)) (cols nd))"
    by (rule uniques_loop_distinct[OF assms]) (use assms in \<open>simp_all add: names_def\<close>)
  then show ?thesis
    by (simp add: classify_def names_def num_attributes_of_def cat_attributes_of_def
        filter_map o_def split_def)
qed

lemma names_iloc_from: "names (iloc_from k df) = drop k (names df)"
  by (simp add: names_def iloc_from_def drop_map)

text \<open>Pruning and the removal of rows keep the column names distinct.\<close>

lemma names_distinct_drop_columns:
  "distinct (names df) \<Longrightarrow> distinct (names (drop_columns labels df))"
  by (simp add: names_drop_columns)





section \<open>Imputation and scaling\<close>

lemma select_columns_sub:
  assumes "distinct (names df)"
  shows "set ys \<subseteq> set (cols df) \<Longrightarrow> select_columns df (map fst ys) = Inr ys"
proof (induction ys)
  case Nil
  then show ?case by simp
next
  case (Cons y ys)
  obtain n c where y: "y = (n, c)" by (cases y)
  with Cons.prems have "getcol df n = Inr c" using getcol_member[OF assms] by simp
  with Cons y show ?case by simp
qed

lemma getcols_sub:
  "distinct (names df) \<Longrightarrow> set ys \<subseteq> set (cols df) \<Longrightarrow>
   getcols df (map fst ys) = Inr (df\<lparr>cols := ys\<rparr>)"
  by (simp add: getcols_def select_columns_sub)

lemma reorder_distinct:
  assumes "distinct (names nd)" and "set ns \<subseteq> set (cols nd)" and "set cs \<subseteq> set (cols nd)"
  shows "reorder nd (map fst ns) (map fst cs) = Inr \<lparr>index = index nd, cols = ns @ cs\<rparr>"
  using assms by (simp add: reorder_def getcols_sub concat_axis1_def)

lemma distinct_partition:
  assumes "distinct (map fst xs)"
  shows "distinct (map fst (filter (\<lambda>(n, c). 6 < nunique c) xs) @
                   map fst (filter (\<lambda>(n, c). nunique c \<le> 6) xs))"
proof -
  have "set (map fst (filter (\<lambda>(n, c). 6 < nunique c) xs)) \<inter>
        set (map fst (filter (\<lambda>(n, c). nunique c \<le> 6) xs)) = {}"
  proof (rule ccontr)
    assume "\<not> ?thesis"
    then obtain n c c' where "(n, c) \<in> set xs" "6 < nunique c" "(n, c') \<in> set xs" "nunique c' \<le> 6"
      by auto
    with assms have "c = c'" by (meson eq_key_imp_eq_value)
    with \<open>6 < nunique c\<close> \<open>nunique c' \<le> 6\<close> show False by simp
  qed
  with assms show ?thesis by (simp add: distinct_map_filter)
qed

lemma apply_to_columns_sub:
  assumes "distinct (names nd)" and "set ys \<subseteq> set (cols nd)"
  shows "apply_to_columns t (map fst ys) nd =
    (if ys = [] then Inr []
     else case t (shape0 nd, map snd ys) of Inl e \<Rightarrow> Inl e | Inr Xt \<Rightarrow> Inr (snd Xt))"
  using assms by (simp add: apply_to_columns_def getcols_sub to_array_def shape0_def)

lemma constant_imputer:
  "SimpleImputer_fit_transform ''constant'' (Some v) X =
    (if fst X = 0 \<or> snd X = [] then Inl ValueError else Inr (fst X, map (impute v) (snd X)))"
proof -
  have "concat (map (\<lambda>c. [impute v c]) xs) = map (impute v) xs" for xs
    by (induction xs) simp_all
  then show ?thesis
    by (simp add: SimpleImputer_fit_transform_def allowed_strategies_def statistic_def)
qed

lemma constant_pipeline:
  "Pipeline_fit_transform (SimpleImputer_fit_transform ''constant'' (Some v))
     (scaler_fit_transform sc) X =
    (if fst X = 0 \<or> snd X = [] then Inl ValueError
     else Inr (fst X, map (\<lambda>c. scale_column sc (impute v c)) (snd X)))"
  by (simp add: Pipeline_fit_transform_def constant_imputer scaler_fit_transform_def)

lemma zip_names:
  "zip (map fst ys) (map (\<lambda>c. f c) (map snd ys)) = map (\<lambda>(n, c). (n, f c)) ys"
  by (induction ys) auto

lemma reassemble_cols:
  assumes "reassemble data pb = Inr out" and "shape0 pb = shape0 data"
  shows "cols out = take 4 (cols data) @ cols pb"
  using assms
  by (auto simp: reassemble_def Let_def concat_axis1_def reset_index_def iloc_upto_def shape0_def
      split: if_splits)

lemma DataFrame_Inr:
  "DataFrame arr labels = Inr pb \<Longrightarrow>
   length (snd arr) = length labels \<and> cols pb = zip labels (snd arr) \<and> shape0 pb = fst arr"
  by (auto simp: DataFrame_def shape0_def split: if_splits)

lemma prepare_stages:
  assumes "classify (iloc_from 4 d) = Inr (ns, cs)"
    and "reorder (iloc_from 4 d) ns cs = Inr nd"
  shows "prepare p d =
    (case fit_transform p ns cs nd of Inl e \<Rightarrow> Inl e | Inr pb \<Rightarrow> reassemble d pb)"
  using assms by (simp add: prepare_def)

lemma impute_nth:
  "i < length c \<Longrightarrow> impute v c ! i = (case c ! i of None \<Rightarrow> Some v | Some y \<Rightarrow> Some y)"
  by (simp add: impute_def)

lemma sum_present_impute:
  "sum_list (present (impute v c)) =
     sum_list (present c) + real (length (filter (\<lambda>x. x = None) c)) * v"
  by (induction c) (auto simp: present_def impute_def List.map_filter_def algebra_simps split: option.splits)

lemma length_present_impute: "length (present (impute v c)) = length c"
  by (induction c) (auto simp: present_def impute_def List.map_filter_def split: option.splits)

lemma nanmean_impute:
  "c \<noteq> [] \<Longrightarrow>
   nanmean (impute v c) =
     Some ((sum_list (present c) + real (length (filter (\<lambda>x. x = None) c)) * v) /
           real (length c))"
  using length_present_impute[of v c]
  by (auto simp: nanmean_def Let_def sum_present_impute)

lemma prepare_distinct:
  assumes "distinct (names data)"
  shows "prepare p data =
    (case fit_transform p
            (map fst (filter (\<lambda>(n, c). 6 < nunique c) (drop 4 (cols data))))
            (map fst (filter (\<lambda>(n, c). nunique c \<le> 6) (drop 4 (cols data))))
            \<lparr>index = index data,
             cols = filter (\<lambda>(n, c). 6 < nunique c) (drop 4 (cols data)) @
                    filter (\<lambda>(n, c). nunique c \<le> 6) (drop 4 (cols data))\<rparr> of
       Inl e \<Rightarrow> Inl e
     | Inr pb \<Rightarrow> reassemble data pb)"
proof -
  let ?new = "iloc_from 4 data"
  let ?N = "filter (\<lambda>(n, c). 6 < nunique c) (cols ?new)"
  let ?C = "filter (\<lambda>(n, c). nunique c \<le> 6) (cols ?new)"
  have d0: "distinct (names ?new)"
    using assms by (simp add: names_iloc_from distinct_drop)
  have cl: "classify ?new = Inr (map fst ?N, map fst ?C)"
    by (rule classify_distinct[OF d0])
  have ro: "reorder ?new (map fst ?N) (map fst ?C) = Inr \<lparr>index = index ?new, cols = ?N @ ?C\<rparr>"
    by (rule reorder_distinct[OF d0]) auto
  from prepare_stages[OF cl ro, of p] show ?thesis by (simp add: iloc_from_def)
qed

lemma minmax_constant_pipeline:
  "Pipeline_fit_transform (SimpleImputer_fit_transform ''constant'' (Some v))
     (scaler_fit_transform MinMaxScaler) =
   (\<lambda>X. if fst X = 0 \<or> snd X = [] then Inl ValueError
        else Inr (fst X, map (\<lambda>c. minmax_scale (impute v c)) (snd X)))"
  by (rule ext) (simp add: constant_pipeline scale_column_def)

lemma impute_length: "length (impute v c) = length c"
  by (simp add: impute_def)

lemma nunique_pos: "0 < nunique c \<Longrightarrow> c \<noteq> []"
  by (auto simp: nunique_def)

lemma prepare_constant_cols:
  assumes "distinct (names data)" and "num_strategy p = ''constant''"
    and "scaler_of (scaling p) = Some sc" and "prepare p data = Inr out"
  shows "\<exists>Xc. length Xc = length (filter (\<lambda>(n, c). nunique c \<le> 6) (drop 4 (cols data))) \<and>
           cols out = take 4 (cols data) @
             map (\<lambda>(n, c). (n, scale_column sc (impute (fill_value p) c)))
               (filter (\<lambda>(n, c). 6 < nunique c) (drop 4 (cols data))) @
             zip (map fst (filter (\<lambda>(n, c). nunique c \<le> 6) (drop 4 (cols data)))) Xc"
proof -
  let ?N = "filter (\<lambda>(n, c). 6 < nunique c) (drop 4 (cols data))"
  let ?C = "filter (\<lambda>(n, c). nunique c \<le> 6) (drop 4 (cols data))"
  let ?ord = "\<lparr>index = index data, cols = ?N @ ?C\<rparr>"
  from assms(4) prepare_distinct[OF assms(1), of p] obtain pb where
    ft: "fit_transform p (map fst ?N) (map fst ?C) ?ord = Inr pb" and
    re: "reassemble data pb = Inr out"
    by (cases "fit_transform p (map fst ?N) (map fst ?C) ?ord") auto
  have "distinct (map fst (drop 4 (cols data)))"
    using assms(1) by (simp add: names_def drop_map[symmetric] distinct_drop)
  from distinct_partition[OF this] have dn: "distinct (names ?ord)"
    by (simp add: names_def)
  let ?numP = "Pipeline_fit_transform (SimpleImputer_fit_transform ''constant'' (Some (fill_value p)))
                 (scaler_fit_transform sc)"
  let ?catI = "SimpleImputer_fit_transform (cat_strategy p) None"
  from ft assms(2,3) obtain arr where
    fp: "full_pipeline_fit_transform ?numP ?catI (map fst ?N) (map fst ?C) ?ord = Inr arr" and
    df: "DataFrame arr (map fst ?N @ map fst ?C) = Inr pb"
    by (auto simp: fit_transform_def split: sum.splits)
  from fp obtain Xn Xc where
    xn: "apply_to_columns ?numP (map fst ?N) ?ord = Inr Xn" and
    xc: "apply_to_columns ?catI (map fst ?C) ?ord = Inr Xc" and
    arr: "arr = (shape0 ?ord, Xn @ Xc)"
    by (auto simp: full_pipeline_fit_transform_def split: sum.splits)
  have Xn: "Xn = map (\<lambda>c. scale_column sc (impute (fill_value p) c)) (map snd ?N)"
    using xn apply_to_columns_sub[OF dn, of ?N ?numP]
    by (auto simp: constant_pipeline split: if_splits)
  from DataFrame_Inr[OF df] arr have
    len: "length (Xn @ Xc) = length (map fst ?N @ map fst ?C)" and
    cp: "cols pb = zip (map fst ?N @ map fst ?C) (Xn @ Xc)" and sh: "shape0 pb = shape0 ?ord"
    by simp_all
  from len have lc: "length Xc = length ?C" by (simp add: Xn)
  have "shape0 ?ord = shape0 data" by (simp add: shape0_def)
  with sh reassemble_cols[OF re] have co: "cols out = take 4 (cols data) @ cols pb" by simp
  have "zip (map fst ?N @ map fst ?C) (Xn @ Xc) = zip (map fst ?N) Xn @ zip (map fst ?C) Xc"
    by (simp add: Xn)
  also have "zip (map fst ?N) Xn = map (\<lambda>(n, c). (n, scale_column sc (impute (fill_value p) c))) ?N"
    unfolding Xn by (rule zip_names)
  finally have "cols out = take 4 (cols data) @
      map (\<lambda>(n, c). (n, scale_column sc (impute (fill_value p) c))) ?N @ zip (map fst ?C) Xc"
    using co cp by simp
  with lc show ?thesis by blast
qed

lemma names_after_prepare:
  assumes "length Xc = length C"
    and "cs = ids @ map (\<lambda>(n, c). (n, f c)) N @ zip (map fst C) Xc"
  shows "map fst cs = map fst ids @ map fst N @ map fst C"
  using assms by (simp add: o_def split_def)

lemma distinct_take_partition:
  assumes "distinct (map fst xs)"
  shows "distinct (map fst (take k xs) @
                   map fst (filter (\<lambda>(n, c). 6 < nunique c) (drop k xs)) @
                   map fst (filter (\<lambda>(n, c). nunique c \<le> 6) (drop k xs)))"
proof -
  have "distinct (map fst (take k xs) @ map fst (drop k xs))"
    using assms by (simp add: map_append[symmetric] del: map_append)
  then have a: "distinct (map fst (take k xs))" and b: "distinct (map fst (drop k xs))"
    and c: "set (map fst (take k xs)) \<inter> set (map fst (drop k xs)) = {}"
    by simp_all
  have "set (map fst (filter P (drop k xs))) \<subseteq> set (map fst (drop k xs))" for P
    by auto
  with c have "set (map fst (take k xs)) \<inter> set (map fst (filter P (drop k xs))) = {}" for P
    by blast
  with a distinct_partition[OF b] show ?thesis by (simp add: Int_Un_distrib)
qed

lemma fit_transform_categorical:
  assumes "scaler_of (scaling p) = Some sc"
  shows "fit_transform p [] cs nd =
    (case apply_to_columns (SimpleImputer_fit_transform (cat_strategy p) None) cs nd of
       Inl e \<Rightarrow> Inl e
     | Inr Xc \<Rightarrow> DataFrame (shape0 nd, Xc) cs)"
  using assms
  by (simp add: fit_transform_def full_pipeline_fit_transform_def apply_to_columns_def
      split: sum.splits)

lemma prepare_all_categorical:
  assumes "distinct (names data)" and "scaler_of (scaling p) = Some sc"
    and "filter (\<lambda>(n, c). 6 < nunique c) (drop 4 (cols data)) = []"
  shows "prepare p data =
    (case (case apply_to_columns (SimpleImputer_fit_transform (cat_strategy p) None)
                  (map fst (filter (\<lambda>(n, c). nunique c \<le> 6) (drop 4 (cols data))))
                  \<lparr>index = index data,
                   cols = filter (\<lambda>(n, c). nunique c \<le> 6) (drop 4 (cols data))\<rparr> of
             Inl e \<Rightarrow> Inl e
           | Inr Xc \<Rightarrow>
               DataFrame (shape0 data, Xc)
                 (map fst (filter (\<lambda>(n, c). nunique c \<le> 6) (drop 4 (cols data))))) of
       Inl e \<Rightarrow> Inl e
     | Inr pb \<Rightarrow> reassemble data pb)"
  unfolding prepare_distinct[OF assms(1)] assms(3)
  by (simp add: fit_transform_categorical[OF assms(2)] shape0_def cong: sum.case_cong)

text \<open>
  C7. With \<open>num_strategy = "constant"\<close>, in every call that returns a table, each continuous
  column (a column after the fourth of the pruned table with more than six distinct values)
  comes out as the scaler applied to the column in which every missing cell is
  \<open>fill_value\<close> and every other cell is what it was. So the scaler is fitted on the filled
  column, and \<open>fill_value\<close> enters its statistics: the mean of the filled column is the sum
  of the values present plus \<open>fill_value\<close> once per missing cell, over the number of rows.
\<close>

theorem constant_fill_before_scaling:
  assumes "distinct (names data)" and "num_strategy p = ''constant''"
    and "scaler_of (scaling p) = Some sc" and "prepare p data = Inr out"
  shows "\<forall>(n, c) \<in> set (filter (\<lambda>(n, c). 6 < nunique c) (drop 4 (cols data))).
           getcol out n = Inr (scale_column sc (impute (fill_value p) c)) \<and>
           length (impute (fill_value p) c) = length c \<and>
           (\<forall>i < length c.
              impute (fill_value p) c ! i =
                (case c ! i of None \<Rightarrow> Some (fill_value p) | Some y \<Rightarrow> Some y)) \<and>
           nanmean (impute (fill_value p) c) =
             Some ((sum_list (present c) +
                    real (length (filter (\<lambda>x. x = None) c)) * fill_value p) /
                   real (length c))"
proof -
  let ?N = "filter (\<lambda>(n, c). 6 < nunique c) (drop 4 (cols data))"
  let ?C = "filter (\<lambda>(n, c). nunique c \<le> 6) (drop 4 (cols data))"
  let ?f = "\<lambda>c. scale_column sc (impute (fill_value p) c)"
  from prepare_constant_cols[OF assms] obtain Xc where
    lc: "length Xc = length ?C" and
    co: "cols out = take 4 (cols data) @ map (\<lambda>(n, c). (n, ?f c)) ?N @ zip (map fst ?C) Xc"
    by blast
  have "distinct (map fst (cols data))" using assms(1) by (simp add: names_def)
  from distinct_take_partition[OF this, of 4] names_after_prepare[OF lc co]
  have dn: "distinct (names out)" by (simp add: names_def)
  have "getcol out n = Inr (?f c)" if "(n, c) \<in> set ?N" for n c
  proof (rule getcol_member[OF dn])
    from that have "(n, ?f c) \<in> set (map (\<lambda>(n, c). (n, ?f c)) ?N)" by force
    then show "(n, ?f c) \<in> set (cols out)" by (simp add: co)
  qed
  moreover have "c \<noteq> []" if "(n, c) \<in> set ?N" for n c
    using that nunique_pos[of c] by auto
  ultimately show ?thesis
    by (auto simp: impute_length impute_nth nanmean_impute)
qed

lemma mixed_table_distinct: "distinct (names mixed_table)"
  by (simp add: mixed_table_def names_table_of columns_distinct)

lemma prepare_mixed_table: "prepare constant_normal_params mixed_table = Inr mixed_prepared"
proof -
  have e: "(case (case full_pipeline_fit_transform
           (\<lambda>X. if fst X = 0 \<or> snd X = [] then Inl ValueError
                else Inr (fst X, map (\<lambda>c. minmax_scale (impute (- 999) c)) (snd X)))
           (SimpleImputer_fit_transform ''most_frequent'' None)
            (map fst (filter (\<lambda>(n, c). 6 < nunique c) (drop 4 (cols mixed_table))))
            (map fst (filter (\<lambda>(n, c). nunique c \<le> 6) (drop 4 (cols mixed_table))))
            \<lparr>index = index mixed_table,
             cols = filter (\<lambda>(n, c). 6 < nunique c) (drop 4 (cols mixed_table)) @
                    filter (\<lambda>(n, c). nunique c \<le> 6) (drop 4 (cols mixed_table))\<rparr> of
         Inl e \<Rightarrow> Inl e
       | Inr arr \<Rightarrow> DataFrame arr
            (map fst (filter (\<lambda>(n, c). 6 < nunique c) (drop 4 (cols mixed_table))) @
             map fst (filter (\<lambda>(n, c). nunique c \<le> 6) (drop 4 (cols mixed_table))))) of
       Inl e \<Rightarrow> Inl e
     | Inr pb \<Rightarrow> reassemble mixed_table pb) = Inr mixed_prepared"
    by code_simp
  show ?thesis
    unfolding prepare_distinct[OF mixed_table_distinct]
    using e
    by (simp add: fit_transform_def constant_normal_params_def default_params_def scaler_of_def
        minmax_constant_pipeline)
qed

theorem constant_fill_before_scaling_witness:
  "distinct (names mixed_table) \<and>
   num_strategy constant_normal_params = ''constant'' \<and>
   scaler_of (scaling constant_normal_params) = Some MinMaxScaler \<and>
   prepare constant_normal_params mixed_table = Inr mixed_prepared \<and>
   getcol mixed_prepared ''Temperature'' =
     Inr (scale_column MinMaxScaler
       (impute (- 999)
         [Some 10, None, Some 12, Some 13, Some 14, Some 15, Some 16, Some 17])) \<and>
   impute (- 999) [Some 10, None, Some 12, Some 13, Some 14, Some 15, Some 16, Some 17] =
     [Some 10, Some (- 999), Some 12, Some 13, Some 14, Some 15, Some 16, Some 17] \<and>
   nanmean (impute (- 999)
       [Some 10, None, Some 12, Some 13, Some 14, Some 15, Some 16, Some 17]) =
     Some (- 902 / 8)"
proof -
  let ?c = "[Some 10, None, Some 12, Some 13, Some 14, Some 15, Some 16, Some 17] :: cell list"
  have h2: "num_strategy constant_normal_params = ''constant''"
    by (simp add: constant_normal_params_def)
  have h3: "scaler_of (scaling constant_normal_params) = Some MinMaxScaler"
    by (simp add: constant_normal_params_def scaler_of_def)
  have fv: "fill_value constant_normal_params = - 999"
    by (simp add: constant_normal_params_def default_params_def)
  have m: "(''Temperature'', ?c) \<in>
           set (filter (\<lambda>(n, c). 6 < nunique c) (drop 4 (cols mixed_table)))"
    by code_simp
  have i: "impute (- 999) ?c =
           [Some 10, Some (- 999), Some 12, Some 13, Some 14, Some 15, Some 16, Some 17]"
    by (simp add: impute_def)
  have p: "sum_list (present ?c) = 97"
    by (simp add: present_def List.map_filter_def)
  from constant_fill_before_scaling[OF mixed_table_distinct h2 h3 prepare_mixed_table] m
  have "getcol mixed_prepared ''Temperature'' =
          Inr (scale_column MinMaxScaler (impute (fill_value constant_normal_params) ?c)) \<and>
        nanmean (impute (fill_value constant_normal_params) ?c) =
          Some ((sum_list (present ?c) +
                 real (length (filter (\<lambda>x. x = None) ?c)) * fill_value constant_normal_params) /
                real (length ?c))"
    by blast
  then show ?thesis
    using mixed_table_distinct h2 h3 prepare_mixed_table i by (simp add: fv p)
qed

section \<open>The final check\<close>




text \<open>
  What the pipeline does guarantee: the imputers leave no missing cell in the feature
  columns, and the scalers keep them so. A table that is returned has a missing cell only
  where one of the first four columns of the pruned table has one; these columns are
  passed through as they are.
\<close>

lemma impute_complete: "None \<notin> set (impute v c)"
  by (auto simp: impute_def split: option.splits)

lemma scale_column_complete: "None \<notin> set c \<Longrightarrow> None \<notin> set (scale_column sc c)"
  by (cases sc)
    (auto simp: scale_column_def standard_scale_def minmax_scale_def Let_def
      split: option.splits prod.splits)

lemma imputer_complete:
  assumes "SimpleImputer_fit_transform strategy fv X = Inr Y"
  shows "\<forall>c \<in> set (snd Y). None \<notin> set c"
  using assms
  by (auto simp: SimpleImputer_fit_transform_def impute_complete split: if_splits option.splits)

lemma scaler_complete:
  assumes "scaler_fit_transform sc Y = Inr Z" and "\<forall>c \<in> set (snd Y). None \<notin> set c"
  shows "\<forall>c \<in> set (snd Z). None \<notin> set c"
  using assms
  by (auto simp: scaler_fit_transform_def scale_column_complete split: if_splits)

lemma apply_to_columns_complete:
  assumes "apply_to_columns t labels X = Inr Xt"
    and "\<And>A B. t A = Inr B \<Longrightarrow> \<forall>c \<in> set (snd B). None \<notin> set c"
  shows "\<forall>c \<in> set Xt. None \<notin> set c"
  using assms
  by (auto simp: apply_to_columns_def split: if_splits sum.splits)

lemma fit_transform_complete:
  assumes "fit_transform p ns cs nd = Inr pb"
  shows "\<forall>(n, c) \<in> set (cols pb). None \<notin> set c"
proof -
  from assms obtain sc where sc: "scaler_of (scaling p) = Some sc"
    by (auto simp: fit_transform_def split: option.splits)
  let ?numI = "SimpleImputer_fit_transform (num_strategy p)
                 (if num_strategy p = ''constant'' then Some (fill_value p) else None)"
  let ?numP = "Pipeline_fit_transform ?numI (scaler_fit_transform sc)"
  let ?catI = "SimpleImputer_fit_transform (cat_strategy p) None"
  from assms sc obtain arr where
    fp: "full_pipeline_fit_transform ?numP ?catI ns cs nd = Inr arr" and
    df: "DataFrame arr (ns @ cs) = Inr pb"
    by (auto simp: fit_transform_def Let_def split: sum.splits)
  from fp obtain Xn Xc where
    xn: "apply_to_columns ?numP ns nd = Inr Xn" and
    xc: "apply_to_columns ?catI cs nd = Inr Xc" and
    arr: "arr = (shape0 nd, Xn @ Xc)"
    by (auto simp: full_pipeline_fit_transform_def split: sum.splits)
  have "\<forall>c \<in> set (snd B). None \<notin> set c" if "?numP A = Inr B" for A B
  proof -
    from that obtain Y where "?numI A = Inr Y" "scaler_fit_transform sc Y = Inr B"
      by (auto simp: Pipeline_fit_transform_def split: sum.splits)
    with imputer_complete scaler_complete show ?thesis by blast
  qed
  with xn have n: "\<forall>c \<in> set Xn. None \<notin> set c"
    by (rule apply_to_columns_complete)
  from xc imputer_complete have c: "\<forall>c \<in> set Xc. None \<notin> set c"
    by (rule apply_to_columns_complete)
  from DataFrame_Inr[OF df] arr have "cols pb = zip (ns @ cs) (Xn @ Xc)" by simp
  with n c show ?thesis by (auto dest!: set_zip_rightD)
qed

lemma prepared_complete:
  assumes "distinct (names data)" and "prepare p data = Inr out"
    and "\<forall>(n, c) \<in> set (take 4 (cols data)). None \<notin> set c"
  shows "\<forall>(n, c) \<in> set (cols out). None \<notin> set c"
proof -
  let ?N = "filter (\<lambda>(n, c). 6 < nunique c) (drop 4 (cols data))"
  let ?C = "filter (\<lambda>(n, c). nunique c \<le> 6) (drop 4 (cols data))"
  let ?ord = "\<lparr>index = index data, cols = ?N @ ?C\<rparr>"
  from assms(2) prepare_distinct[OF assms(1), of p] obtain pb where
    ft: "fit_transform p (map fst ?N) (map fst ?C) ?ord = Inr pb" and
    re: "reassemble data pb = Inr out"
    by (cases "fit_transform p (map fst ?N) (map fst ?C) ?ord") auto
  from ft have sh: "shape0 pb = shape0 data"
    by (auto simp: fit_transform_def full_pipeline_fit_transform_def Let_def shape0_def
        dest!: DataFrame_Inr split: option.splits sum.splits)
  from reassemble_cols[OF re sh] fit_transform_complete[OF ft] assms(3) show ?thesis
    by auto
qed

text \<open>
  C1. The comment of line 181 announces an assertion that the prepared table has no missing
  value, but the assertion of line 182 passes as soon as one column is complete. For
  \<open>null_identifier_table\<close> and the default parameters the call returns the table as it is,
  with the missing cell of \<open>Cast Count\<close> in it.
\<close>

theorem null_identifier_returned:
  "fst (preprocess_data default_params (loaded null_identifier_table)) =
     Inr null_identifier_table \<and>
   getcol null_identifier_table ''Cast Count'' = Inr [None, Some 2]"
proof -
  let ?t = null_identifier_table
  have d: "distinct (names ?t)"
    by (simp add: null_identifier_table_def names_table_of columns_distinct)
  have s: "scaler_of (scaling default_params) = Some StandardScaler"
    by (simp add: default_params_def scaler_of_def)
  have pr: "dropna ''Salinity'' (drop_columns (columns_to_drop ?t 70) ?t) = Inr ?t"
    by code_simp
  have n: "filter (\<lambda>(n, c). 6 < nunique c) (drop 4 (cols ?t)) = []"
    by code_simp
  have e: "(case (case apply_to_columns (SimpleImputer_fit_transform ''most_frequent'' None)
                  (map fst (filter (\<lambda>(n, c). nunique c \<le> 6) (drop 4 (cols ?t))))
                  \<lparr>index = index ?t,
                   cols = filter (\<lambda>(n, c). nunique c \<le> 6) (drop 4 (cols ?t))\<rparr> of
             Inl e \<Rightarrow> Inl e
           | Inr Xc \<Rightarrow>
               DataFrame (shape0 ?t, Xc)
                 (map fst (filter (\<lambda>(n, c). nunique c \<le> 6) (drop 4 (cols ?t))))) of
       Inl e \<Rightarrow> Inl e
     | Inr pb \<Rightarrow> reassemble ?t pb) = Inr ?t"
    by code_simp
  have "prepare default_params ?t = Inr ?t"
    unfolding prepare_all_categorical[OF d s n] using e by (simp add: default_params_def)
  with pr have "fst (preprocess_data default_params (loaded ?t)) = Inr ?t"
    by (simp add: preprocess_data_result deref_loaded default_params_def)
  moreover have "getcol ?t ''Cast Count'' = Inr [None, Some 2]"
    by code_simp
  ultimately show ?thesis by simp
qed

end
